theory Spec2Isabelle
  imports Main
begin

section \<open>Torc: the phase-execution template and its job descriptors\<close>

text \<open>
  A shallow embedding of \<^verbatim>\<open>poiesis/core/services/torc/torc_execution_template.py\<close>
  (class \<^verbatim>\<open>TorcExecutionTemplate\<close>) and
  \<^verbatim>\<open>poiesis/core/services/torc/torc_texam_execution.py\<close>
  (class \<^verbatim>\<open>TorcTexamExecution\<close>).

  The Kubernetes model classes are records that hold the keyword arguments a constructor
  call passes; an argument the call leaves out is \<open>None\<close>. Where two classes have an
  attribute of the same name, the record fields carry the class as a prefix
  (\<open>container_name\<close>, \<open>env_name\<close>, ...). The one constructor that is called with a
  keyword it does not have, \<^verbatim>\<open>V1SecurityContext\<close>, is modelled with its keyword list, so
  that the call raises as it does in Python. Strings are ASCII.
\<close>

subsection \<open>Kubernetes descriptors\<close>

record V1SeccompProfile =
  type :: "string option"

record V1Capabilities =
  drop_capabilities :: "string list option"

text \<open>
  The value of a keyword argument of \<^verbatim>\<open>V1SecurityContext(...)\<close>, and the object the call
  gives: the attributes that were set, in the order of the call.
\<close>

datatype kwvalue =
    KwStr string
  | KwBool bool
  | KwInt int
  | KwSeccompProfile V1SeccompProfile
  | KwCapabilities V1Capabilities

record V1SecurityContext =
  attributes :: "(string \<times> kwvalue) list"

record V1ConfigMapKeySelector =
  selector_name :: string
  key :: string
  optional :: "bool option"

record V1EnvVarSource =
  config_map_key_ref :: "V1ConfigMapKeySelector option"

record V1EnvVar =
  env_name :: string
  env_value :: "string option"
  value_from :: "V1EnvVarSource option"

record V1VolumeMount =
  mount_name :: string
  mount_path :: string

record V1PersistentVolumeClaimVolumeSource =
  claim_name :: string

record V1Volume =
  volume_name :: string
  persistent_volume_claim :: "V1PersistentVolumeClaimVolumeSource option"

record V1Container =
  container_name :: string
  image :: string
  command :: "string list"
  args :: "string list"
  env :: "V1EnvVar list"
  container_security_context :: "V1SecurityContext option"
  volume_mounts :: "V1VolumeMount list option"
  image_pull_policy :: string

record V1PodSpec =
  pod_security_context :: "V1SecurityContext option"
  service_account_name :: "string option"
  containers :: "V1Container list"
  volumes :: "V1Volume list option"
  restart_policy :: string

record V1PodTemplateSpec =
  template_spec :: V1PodSpec

record V1JobSpec =
  backoff_limit :: "int option"
  template :: V1PodTemplateSpec
  ttl_seconds_after_finished :: "int option"

record V1ObjectMeta =
  meta_name :: "string option"
  labels :: "(string \<times> string) list option"

record V1Job =
  api_version :: string
  kind :: string
  metadata :: V1ObjectMeta
  job_spec :: V1JobSpec

subsection \<open>Configuration\<close>

text \<open>
  \<^verbatim>\<open>core_constants.K8s\<close> and the five environment providers of
  \<^verbatim>\<open>poiesis.core.constants\<close> are read, never written; they are parameters here.
  \<open>JOB_TTL\<close> may be absent (\<open>None\<close>).
\<close>

record K8s =
  JOB_TTL :: "string option"
  BACKOFF_LIMIT :: string
  POIESIS_IMAGE :: string
  CONFIGMAP_NAME :: string
  COMMON_PVC_VOLUME_NAME :: string
  FILER_PVC_PATH :: string
  IMAGE_PULL_POLICY :: string
  PVC_PREFIX :: string
  RESTART_POLICY :: string
  SERVICE_ACCOUNT_NAME :: string
  TEXAM_PREFIX :: string
  TIF_PREFIX :: string
  TORC_PREFIX :: string

record constants =
  core_constants_K8s :: K8s
  get_message_broker_envs :: "V1EnvVar list"
  get_mongo_envs :: "V1EnvVar list"
  get_s3_envs :: "V1EnvVar list"
  get_secret_names :: "V1EnvVar list"
  get_configmap_names :: "V1EnvVar list"

subsection \<open>Python's \<^verbatim>\<open>int(str)\<close>\<close>

text \<open>
  \<^verbatim>\<open>int(s)\<close> on an ASCII string, base 10: surrounding blanks (the characters 9 to 13
  and the space, 32) are stripped, one sign is allowed, then decimal digits, where single
  underscores may separate digits. Anything else is a \<^verbatim>\<open>ValueError\<close> (\<open>None\<close> here), and
  so is a literal of more than 4300 digits (CPython's default limit).
\<close>

definition py_isspace :: "char \<Rightarrow> bool" where
  "py_isspace c = (let n = (of_char c :: nat) in (9 \<le> n \<and> n \<le> 13) \<or> n = 32)"

definition py_isdigit :: "char \<Rightarrow> bool" where
  "py_isdigit c = (let n = (of_char c :: nat) in 48 \<le> n \<and> n \<le> 57)"

definition digit_value :: "char \<Rightarrow> nat" where
  "digit_value c = (of_char c :: nat) - 48"

definition py_strip :: "string \<Rightarrow> string" where
  "py_strip s = rev (dropWhile py_isspace (rev (dropWhile py_isspace s)))"

fun py_digits :: "string \<Rightarrow> nat list option" where
  "py_digits [] = None"
| "py_digits [c] = (if py_isdigit c then Some [digit_value c] else None)"
| "py_digits (c # c' # cs) =
     (if \<not> py_isdigit c then None
      else if c' = CHR ''_''
        then map_option ((#) (digit_value c)) (py_digits cs)
        else map_option ((#) (digit_value c)) (py_digits (c' # cs)))"

definition decimal :: "nat list \<Rightarrow> nat" where
  "decimal ds = foldl (\<lambda>acc d. 10 * acc + d) 0 ds"

definition int_max_str_digits :: nat where
  "int_max_str_digits = 4300"

definition py_int :: "string \<Rightarrow> int option" where
  "py_int s =
     (case py_strip s of
        [] \<Rightarrow> None
      | c # cs \<Rightarrow>
          (let negative = (c = CHR ''-'');
               body = (if c = CHR ''-'' \<or> c = CHR ''+'' then cs else c # cs)
           in case py_digits body of
                None \<Rightarrow> None
              | Some ds \<Rightarrow>
                  if int_max_str_digits < length ds then None
                  else Some (if negative then - int (decimal ds) else int (decimal ds))))"

subsection \<open>Messages, exceptions and effects\<close>

datatype MessageStatus = OK | ERROR

record Message =
  status :: MessageStatus
  message :: string

text \<open>
  The exceptions that reach a caller. \<open>ApiException\<close> is the scheduler client's error
  (status and reason); \<open>Exception\<close> stands for any other exception a collaborator raises.
\<close>

datatype exn =
    AttributeError string
  | RuntimeError string
  | ValueError string
  | TypeError string
  | ApiException int string
  | Exception string

text \<open>
  \<^verbatim>\<open>kubernetes.client.V1SecurityContext.__init__\<close> takes the keywords below and no
  others (its signature has no \<^verbatim>\<open>**kwargs\<close>). \<^verbatim>\<open>fs_group_change_policy\<close> is a keyword of
  \<^verbatim>\<open>V1PodSecurityContext\<close>, a class that neither source file imports. A call with a
  keyword that is not in the list raises \<^verbatim>\<open>TypeError\<close>, naming the keyword.
\<close>

definition V1SecurityContext_keywords :: "string list" where
  "V1SecurityContext_keywords =
     [''allow_privilege_escalation'', ''app_armor_profile'', ''capabilities'', ''privileged'',
      ''proc_mount'', ''read_only_root_filesystem'', ''run_as_group'', ''run_as_non_root'',
      ''run_as_user'', ''se_linux_options'', ''seccomp_profile'', ''windows_options'',
      ''local_vars_configuration'']"

fun unexpected_keyword :: "string list \<Rightarrow> (string \<times> kwvalue) list \<Rightarrow> string option" where
  "unexpected_keyword allowed [] = None"
| "unexpected_keyword allowed ((k, v) # kws) =
     (if List.member allowed k then unexpected_keyword allowed kws else Some k)"

definition V1SecurityContext_init :: "(string \<times> kwvalue) list \<Rightarrow> exn + V1SecurityContext" where
  "V1SecurityContext_init kws =
     (case unexpected_keyword V1SecurityContext_keywords kws of
        Some k \<Rightarrow> Inl (TypeError k)
      | None \<Rightarrow> Inr \<lparr>attributes = kws\<rparr>)"

text \<open>
  What an invocation does to the world outside, in the order it does it: logger calls,
  the job handed to the scheduler client, the subscription and every item the
  \<^verbatim>\<open>for\<close> loop takes from it, and the two task-store writes.
\<close>

datatype event =
    LoggerDebug V1Job
  | LoggerInfo string
  | LoggerWarning string
  | LoggerError string
  | LoggerErrorExc exn
  | KubernetesCreateJob V1Job
  | BrokerSubscribe string
  | BrokerYield "Message option"
  | DbAddTesTaskSystemLogs string "string list"
  | DbAddTesTaskLogEndTime string

text \<open>A subscription is a generator: it may end, and it may go on for ever.\<close>

codatatype 'a llist = LNil | LCons 'a "'a llist"

text \<open>
  The object. \<open>self_id = None\<close> is \<^verbatim>\<open>not hasattr(self, "id")\<close>: the base class's
  \<^verbatim>\<open>__init__\<close> does not set it. \<open>kubernetes_client\<close> is the answer of
  \<^verbatim>\<open>KubernetesAdapter.create_job\<close> to a job (\<open>None\<close>: accepted), \<open>message_broker\<close>
  what \<^verbatim>\<open>RedisMessageBroker.subscribe\<close> yields for a channel name.
\<close>

record torc =
  self_id :: "string option"
  self_message :: "Message option"
  kubernetes_client :: "V1Job \<Rightarrow> exn option"
  message_broker :: "string \<Rightarrow> Message option llist"
  events :: "event list"

record 'task texam = torc +
  self_task :: 'task

definition TorcExecutionTemplate_init ::
  "(V1Job \<Rightarrow> exn option) \<Rightarrow> (string \<Rightarrow> Message option llist) \<Rightarrow> torc" where
  "TorcExecutionTemplate_init k8s broker =
     \<lparr>self_id = None, self_message = None, kubernetes_client = k8s,
      message_broker = broker, events = []\<rparr>"

definition TorcTexamExecution_init ::
  "(V1Job \<Rightarrow> exn option) \<Rightarrow> (string \<Rightarrow> Message option llist) \<Rightarrow> string \<Rightarrow> 'task
     \<Rightarrow> 'task texam" where
  "TorcTexamExecution_init k8s broker task_id task =
     \<lparr>self_id = Some task_id, self_message = None, kubernetes_client = k8s,
      message_broker = broker, events = [], self_task = task\<rparr>"

definition emit :: "event \<Rightarrow> 'a torc_scheme \<Rightarrow> 'a torc_scheme" where
  "emit e self = self\<lparr>events := events self @ [e]\<rparr>"

text \<open>The events an operation added, given the state before and the state after.\<close>

definition emitted :: "'a torc_scheme \<Rightarrow> 'b torc_scheme \<Rightarrow> event list" where
  "emitted before after = drop (length (events before)) (events after)"

fun submitted_jobs :: "event list \<Rightarrow> V1Job list" where
  "submitted_jobs [] = []"
| "submitted_jobs (KubernetesCreateJob job # es) = job # submitted_jobs es"
| "submitted_jobs (_ # es) = submitted_jobs es"

fun store_mutations :: "event list \<Rightarrow> event list" where
  "store_mutations [] = []"
| "store_mutations (DbAddTesTaskSystemLogs i ls # es) =
     DbAddTesTaskSystemLogs i ls # store_mutations es"
| "store_mutations (DbAddTesTaskLogEndTime i # es) =
     DbAddTesTaskLogEndTime i # store_mutations es"
| "store_mutations (_ # es) = store_mutations es"

text \<open>
  Modelled from the spec: the task store client (\<^verbatim>\<open>poiesis.repository.mongo.MongoDBClient\<close>)
  is not among the sources. Its two operations are
  \<^verbatim>\<open>appendSystemLog(identity, [text]) -> ok\<close> and \<^verbatim>\<open>setLogEndTime(identity) -> ok\<close>:
  each write is recorded and returns.
\<close>

definition add_tes_task_system_logs ::
  "string \<Rightarrow> string list \<Rightarrow> 'a torc_scheme \<Rightarrow> 'a torc_scheme" where
  "add_tes_task_system_logs i logs self = emit (DbAddTesTaskSystemLogs i logs) self"

definition add_tes_task_log_end_time :: "string \<Rightarrow> 'a torc_scheme \<Rightarrow> 'a torc_scheme" where
  "add_tes_task_log_end_time i self = emit (DbAddTesTaskLogEndTime i) self"

subsection \<open>Building and submitting jobs\<close>

text \<open>
  The \<^verbatim>\<open>try\<close> block that resolves the time-to-live, the same in \<^verbatim>\<open>create_job\<close>
  and in \<^verbatim>\<open>start_job\<close>: \<^verbatim>\<open>int(JOB_TTL) if JOB_TTL else None\<close>, and on
  \<^verbatim>\<open>ValueError\<close> a warning and \<open>None\<close>. It gives the value and the warnings logged.
\<close>

definition job_ttl :: "string option \<Rightarrow> int option \<times> event list" where
  "job_ttl ttl =
     (case ttl of
        None \<Rightarrow> (None, [])
      | Some s \<Rightarrow>
          if s = [] then (None, [])
          else (case py_int s of
                  Some n \<Rightarrow> (Some n, [])
                | None \<Rightarrow>
                    (None, [LoggerWarning
                       (''Invalid JOB_TTL '' @ s @ '', falling back to no TTL (None).'')])))"

text \<open>
  An environment variable that takes its value from a key of the config map:
  \<^verbatim>\<open>V1EnvVar(name=n, value_from=V1EnvVarSource(config_map_key_ref=
  V1ConfigMapKeySelector(name=CONFIGMAP_NAME, key=n, optional=opt)))\<close>.
\<close>

definition config_map_env :: "K8s \<Rightarrow> string \<Rightarrow> bool option \<Rightarrow> V1EnvVar" where
  "config_map_env k n opt =
     \<lparr>env_name = n, env_value = None,
      value_from = Some \<lparr>config_map_key_ref =
        Some \<lparr>selector_name = CONFIGMAP_NAME k, key = n, optional = opt\<rparr>\<rparr>\<rparr>"

text \<open>
  The \<^verbatim>\<open>V1Job(...)\<close> expression of \<^verbatim>\<open>create_job\<close>, once both integers are known.
  Python evaluates the keyword arguments in the order written: the pod-level
  \<^verbatim>\<open>V1SecurityContext(...)\<close> call comes before the container is built, and an exception
  from either call leaves the expression without a value.
\<close>

definition filer_job ::
  "constants \<Rightarrow> int option \<Rightarrow> int \<Rightarrow> string \<Rightarrow> string \<Rightarrow> string list \<Rightarrow> string list
     \<Rightarrow> V1ObjectMeta \<Rightarrow> exn + V1Job" where
  "filer_job cc ttl backoff task_id job_name commands arguments meta =
     (let k = core_constants_K8s cc in
      case V1SecurityContext_init
             [(''fs_group_change_policy'', KwStr ''OnRootMismatch''),
              (''run_as_non_root'', KwBool True),
              (''seccomp_profile'', KwSeccompProfile \<lparr>type = Some ''RuntimeDefault''\<rparr>)] of
        Inl e \<Rightarrow> Inl e
      | Inr pod_context \<Rightarrow>
          (case V1SecurityContext_init
                  [(''run_as_user'', KwInt 1000),
                   (''allow_privilege_escalation'', KwBool False),
                   (''capabilities'',
                    KwCapabilities \<lparr>drop_capabilities = Some [''ALL'']\<rparr>)] of
             Inl e \<Rightarrow> Inl e
           | Inr container_context \<Rightarrow>
               Inr \<lparr>api_version = ''batch/v1'',
                    kind = ''Job'',
                    metadata = meta,
                    job_spec =
                      \<lparr>backoff_limit = Some backoff,
                       template = \<lparr>template_spec =
                         \<lparr>pod_security_context = Some pod_context,
                          service_account_name = None,
                          containers =
                            [\<lparr>container_name = job_name,
                              image = POIESIS_IMAGE k,
                              command = commands,
                              args = arguments,
                              env = get_message_broker_envs cc @ get_mongo_envs cc
                                    @ get_s3_envs cc @ get_secret_names cc
                                    @ get_configmap_names cc
                                    @ [\<lparr>env_name = ''POIESIS_IMAGE'',
                                        env_value = Some (POIESIS_IMAGE k),
                                        value_from = None\<rparr>,
                                       config_map_env k ''LOG_LEVEL'' None],
                              container_security_context = Some container_context,
                              volume_mounts =
                                Some [\<lparr>mount_name = COMMON_PVC_VOLUME_NAME k,
                                       mount_path = FILER_PVC_PATH k\<rparr>],
                              image_pull_policy = IMAGE_PULL_POLICY k\<rparr>],
                          volumes =
                            Some [\<lparr>volume_name = COMMON_PVC_VOLUME_NAME k,
                                   persistent_volume_claim =
                                     Some \<lparr>claim_name = PVC_PREFIX k @ ''-'' @ task_id\<rparr>\<rparr>],
                          restart_policy = RESTART_POLICY k\<rparr>\<rparr>,
                       ttl_seconds_after_finished = ttl\<rparr>\<rparr>))"

text \<open>
  The end of both submitting operations: \<^verbatim>\<open>logger.debug(job)\<close>, then the awaited
  \<^verbatim>\<open>kubernetes_client.create_job(job)\<close>; an \<^verbatim>\<open>ApiException\<close> is logged and raised
  again, any other exception passes through.
\<close>

definition submit :: "V1Job \<Rightarrow> 'a torc_scheme \<Rightarrow> (exn + unit) \<times> 'a torc_scheme" where
  "submit job self =
     (let self1 = emit (KubernetesCreateJob job) (emit (LoggerDebug job) self) in
      case kubernetes_client self job of
        None \<Rightarrow> (Inr (), self1)
      | Some (ApiException st re) \<Rightarrow>
          (Inl (ApiException st re), emit (LoggerErrorExc (ApiException st re)) self1)
      | Some e \<Rightarrow> (Inl e, self1))"

text \<open>
  \<^verbatim>\<open>create_job\<close>: the time-to-live block, then the \<^verbatim>\<open>V1Job(...)\<close> expression, whose
  first argument to raise is \<^verbatim>\<open>int(BACKOFF_LIMIT)\<close>, then the submission.
\<close>

definition create_job ::
  "constants \<Rightarrow> string \<Rightarrow> string \<Rightarrow> string list \<Rightarrow> string list \<Rightarrow> V1ObjectMeta
     \<Rightarrow> 'a torc_scheme \<Rightarrow> (exn + unit) \<times> 'a torc_scheme" where
  "create_job cc task_id job_name commands arguments meta self =
     (let k = core_constants_K8s cc;
          (ttl, warnings) = job_ttl (JOB_TTL k);
          self1 = self\<lparr>events := events self @ warnings\<rparr>
      in case py_int (BACKOFF_LIMIT k) of
           None \<Rightarrow> (Inl (ValueError (BACKOFF_LIMIT k)), self1)
         | Some backoff \<Rightarrow>
             (case filer_job cc ttl backoff task_id job_name commands arguments meta of
                Inl e \<Rightarrow> (Inl e, self1)
              | Inr job \<Rightarrow> submit job self1))"

text \<open>
  The \<^verbatim>\<open>V1Job(...)\<close> expression of \<^verbatim>\<open>TorcTexamExecution.start_job\<close>: the metadata,
  then the pod-level \<^verbatim>\<open>V1SecurityContext(...)\<close> call, then the container.
\<close>

definition texam_job :: "constants \<Rightarrow> int option \<Rightarrow> string \<Rightarrow> string \<Rightarrow> exn + V1Job" where
  "texam_job cc ttl ident task =
     (let k = core_constants_K8s cc;
          texam_name = TEXAM_PREFIX k @ ''-'' @ ident in
      case V1SecurityContext_init
             [(''fs_group_change_policy'', KwStr ''OnRootMismatch''),
              (''run_as_non_root'', KwBool True),
              (''seccomp_profile'', KwSeccompProfile \<lparr>type = Some ''RuntimeDefault''\<rparr>)] of
        Inl e \<Rightarrow> Inl e
      | Inr pod_context \<Rightarrow>
          (case V1SecurityContext_init
                  [(''run_as_user'', KwInt 1000),
                   (''allow_privilege_escalation'', KwBool False),
                   (''capabilities'',
                    KwCapabilities \<lparr>drop_capabilities = Some [''ALL'']\<rparr>)] of
             Inl e \<Rightarrow> Inl e
           | Inr container_context \<Rightarrow>
               Inr \<lparr>api_version = ''batch/v1'',
                    kind = ''Job'',
                    metadata =
                      \<lparr>meta_name = Some texam_name,
                       labels = Some [(''service'', TEXAM_PREFIX k),
                                      (''parent'', TORC_PREFIX k @ ''-'' @ ident),
                                      (''name'', texam_name)]\<rparr>,
                    job_spec =
                      \<lparr>backoff_limit = None,
                       template = \<lparr>template_spec =
                         \<lparr>pod_security_context = Some pod_context,
                          service_account_name = Some (SERVICE_ACCOUNT_NAME k),
                          containers =
                            [\<lparr>container_name = TIF_PREFIX k,
                              image = POIESIS_IMAGE k,
                              command = [''poiesis'', ''texam'', ''run''],
                              args = [''--task'', task],
                              env = get_mongo_envs cc @ get_message_broker_envs cc
                                    @ get_secret_names cc @ get_configmap_names cc
                                    @ [\<lparr>env_name = ''POIESIS_IMAGE'',
                                        env_value = Some (POIESIS_IMAGE k),
                                        value_from = None\<rparr>,
                                       config_map_env k ''LOG_LEVEL'' None,
                                       config_map_env k ''MONITOR_TIMEOUT_SECONDS'' (Some True),
                                       config_map_env k ''POIESIS_K8S_NAMESPACE'' None,
                                       config_map_env k ''POIESIS_SERVICE_ACCOUNT_NAME'' None,
                                       config_map_env k ''POIESIS_RESTART_POLICY'' None,
                                       config_map_env k ''POIESIS_IMAGE_PULL_POLICY'' None,
                                       config_map_env k ''POIESIS_JOB_TTL'' None],
                              container_security_context = Some container_context,
                              volume_mounts = None,
                              image_pull_policy = IMAGE_PULL_POLICY k\<rparr>],
                          volumes = None,
                          restart_policy = RESTART_POLICY k\<rparr>\<rparr>,
                       ttl_seconds_after_finished = ttl\<rparr>\<rparr>))"

text \<open>
  \<^verbatim>\<open>start_job\<close>: the job name (reading \<^verbatim>\<open>self.id\<close> on an object without the
  attribute raises \<^verbatim>\<open>AttributeError\<close>), the time-to-live block, the serialised task, the
  \<^verbatim>\<open>V1Job(...)\<close> expression, the submission.
  \<^verbatim>\<open>json.dumps(self.task.model_dump())\<close> is the parameter \<open>dumps\<close>: the task model is
  not among the sources, and serialising may raise.
\<close>

definition start_job ::
  "constants \<Rightarrow> ('task \<Rightarrow> exn + string) \<Rightarrow> ('task, 'a) texam_scheme
     \<Rightarrow> (exn + unit) \<times> ('task, 'a) texam_scheme" where
  "start_job cc dumps self =
     (case self_id self of
        None \<Rightarrow> (Inl (AttributeError ''id''), self)
      | Some ident \<Rightarrow>
          (let k = core_constants_K8s cc;
               (ttl, warnings) = job_ttl (JOB_TTL k);
               self1 = self\<lparr>events := events self @ warnings\<rparr>
           in case dumps (self_task self) of
                Inl e \<Rightarrow> (Inl e, self1)
              | Inr task \<Rightarrow>
                  (case texam_job cc ttl ident task of
                     Inl e \<Rightarrow> (Inl e, self1)
                   | Inr job \<Rightarrow> submit job self1)))"

subsection \<open>The template: wait, log, execute\<close>

text \<open>
  The \<^verbatim>\<open>for\<close> loop of \<^verbatim>\<open>wait\<close>. It returns when the generator ends or at the first
  item that is not empty; on a generator that yields empty items for ever it does not
  return (\<open>None\<close>).
\<close>

partial_function (option) wait_loop ::
  "Message option llist \<Rightarrow> 'a torc_scheme \<Rightarrow> 'a torc_scheme option" where
  "wait_loop sub self =
     (case sub of
        LNil \<Rightarrow> Some self
      | LCons item rest \<Rightarrow>
          (case item of
             None \<Rightarrow> wait_loop rest (emit (BrokerYield item) self)
           | Some msg \<Rightarrow>
               Some ((if status msg = ERROR
                      then emit (LoggerError (message msg)) (emit (BrokerYield item) self)
                      else emit (BrokerYield item) self)\<lparr>self_message := Some msg\<rparr>)))"

declare wait_loop.simps [code]

definition wait :: "'a torc_scheme \<Rightarrow> ((exn + unit) \<times> 'a torc_scheme) option" where
  "wait self =
     (case self_id self of
        None \<Rightarrow> Some (Inl (AttributeError ''The id of the task is not set.''), self)
      | Some ident \<Rightarrow>
          map_option (Pair (Inr ()))
            (wait_loop (message_broker self ident) (emit (BrokerSubscribe ident) self)))"

definition log :: "'a torc_scheme \<Rightarrow> (exn + unit) \<times> 'a torc_scheme" where
  "log self =
     (case self_id self of
        None \<Rightarrow> (Inl (AttributeError ''The id of the task is not set.''), self)
      | Some ident \<Rightarrow>
          (case self_message self of
             None \<Rightarrow> (Inr (), self)
           | Some msg \<Rightarrow>
               if status msg = ERROR
               then (Inl (RuntimeError
                            ''Exiting due to error condition in asynchronous function.''),
                     add_tes_task_log_end_time ident
                       (add_tes_task_system_logs ident [message msg]
                          (emit (LoggerError (message msg)) self)))
               else (Inr (), emit (LoggerInfo (message msg)) self)))"

text \<open>
  \<^verbatim>\<open>execute\<close>: the hook \<^verbatim>\<open>start_job\<close> is abstract in the template, so it is a
  parameter. An exception leaves with the state reached so far.
\<close>

definition execute ::
  "('a torc_scheme \<Rightarrow> (exn + unit) \<times> 'a torc_scheme) \<Rightarrow> 'a torc_scheme
     \<Rightarrow> ((exn + unit) \<times> 'a torc_scheme) option" where
  "execute start_job_hook self =
     (case start_job_hook self of
        (Inl e, self1) \<Rightarrow> Some (Inl e, self1)
      | (Inr _, self1) \<Rightarrow>
          (case wait self1 of
             None \<Rightarrow> None
           | Some (Inl e, self2) \<Rightarrow> Some (Inl e, self2)
           | Some (Inr _, self2) \<Rightarrow> Some (log self2)))"

subsection \<open>Reading a trace\<close>

fun warnings :: "event list \<Rightarrow> string list" where
  "warnings [] = []"
| "warnings (LoggerWarning w # es) = w # warnings es"
| "warnings (_ # es) = warnings es"

text \<open>The messages, empty items left out, that the loop took from the subscription.\<close>

fun consumed :: "event list \<Rightarrow> Message list" where
  "consumed [] = []"
| "consumed (BrokerYield (Some msg) # es) = msg # consumed es"
| "consumed (_ # es) = consumed es"

fun subscriptions :: "event list \<Rightarrow> string list" where
  "subscriptions [] = []"
| "subscriptions (BrokerSubscribe ch # es) = ch # subscriptions es"
| "subscriptions (_ # es) = subscriptions es"

text \<open>A generator that first yields the items of a list.\<close>

primrec lprepend :: "'a list \<Rightarrow> 'a llist \<Rightarrow> 'a llist" where
  "lprepend [] l = l"
| "lprepend (x # xs) l = LCons x (lprepend xs l)"

text \<open>A channel on which nothing ever arrives.\<close>

primcorec silence :: "Message option llist" where
  "silence = LCons None silence"

subsection \<open>A deployment to run the operations on\<close>

definition example_K8s :: K8s where
  "example_K8s =
     \<lparr>JOB_TTL = Some ''3600'',
      BACKOFF_LIMIT = ''3'',
      POIESIS_IMAGE = ''poiesis:latest'',
      CONFIGMAP_NAME = ''poiesis-core-configmap'',
      COMMON_PVC_VOLUME_NAME = ''task-pvc-volume'',
      FILER_PVC_PATH = ''/transfer'',
      IMAGE_PULL_POLICY = ''IfNotPresent'',
      PVC_PREFIX = ''pvc'',
      RESTART_POLICY = ''Never'',
      SERVICE_ACCOUNT_NAME = ''poiesis-sa'',
      TEXAM_PREFIX = ''texam'',
      TIF_PREFIX = ''tif'',
      TORC_PREFIX = ''torc''\<rparr>"

definition example_constants :: "string option \<Rightarrow> constants" where
  "example_constants ttl =
     \<lparr>core_constants_K8s = example_K8s\<lparr>JOB_TTL := ttl\<rparr>,
      get_message_broker_envs =
        [\<lparr>env_name = ''MESSAGE_BROKER_HOST'', env_value = Some ''redis'', value_from = None\<rparr>],
      get_mongo_envs =
        [\<lparr>env_name = ''MONGODB_HOST'', env_value = Some ''mongo'', value_from = None\<rparr>],
      get_s3_envs = [],
      get_secret_names = [],
      get_configmap_names = []\<rparr>"

definition accepting :: "V1Job \<Rightarrow> exn option" where
  "accepting job = None"

definition rejecting :: "V1Job \<Rightarrow> exn option" where
  "rejecting job = Some (ApiException 409 ''Conflict'')"

definition disk_full :: Message where
  "disk_full = \<lparr>status = ERROR, message = ''disk full''\<rparr>"

definition done_ok :: Message where
  "done_ok = \<lparr>status = OK, message = ''done''\<rparr>"

definition example_meta :: V1ObjectMeta where
  "example_meta = \<lparr>meta_name = Some ''tif-t1'', labels = None\<rparr>"

text \<open>A task-execution object for task \<open>t1\<close>, and filer objects with and without an identity.\<close>

definition example_texam ::
  "(V1Job \<Rightarrow> exn option) \<Rightarrow> Message option llist \<Rightarrow> unit texam" where
  "example_texam k8s sub = TorcTexamExecution_init k8s (\<lambda>ch. sub) ''t1'' ()"

definition example_torc ::
  "(V1Job \<Rightarrow> exn option) \<Rightarrow> Message option llist \<Rightarrow> torc" where
  "example_torc k8s sub = (TorcExecutionTemplate_init k8s (\<lambda>ch. sub))\<lparr>self_id := Some ''t1''\<rparr>"

definition example_dumps :: "unit \<Rightarrow> exn + string" where
  "example_dumps t = Inr ''{}''"

text \<open>A hook that submits nothing and returns.\<close>

definition idle_hook :: "torc \<Rightarrow> (exn + unit) \<times> torc" where
  "idle_hook self = (Inr (), self)"

section \<open>Properties\<close>

subsection \<open>Traces\<close>

lemma emitted_self [simp]: "emitted self self = []"
  by (simp add: emitted_def)

lemma emitted_events_append:
  "events after = events before @ es \<Longrightarrow> emitted before after = es"
  by (simp add: emitted_def)

lemma events_emit [simp]: "events (emit e self) = events self @ [e]"
  by (simp add: emit_def)

lemma kubernetes_client_emit [simp]: "kubernetes_client (emit e self) = kubernetes_client self"
  by (simp add: emit_def)

lemma self_id_emit [simp]: "self_id (emit e self) = self_id self"
  by (simp add: emit_def)

lemma self_message_emit [simp]: "self_message (emit e self) = self_message self"
  by (simp add: emit_def)

lemma message_broker_emit [simp]: "message_broker (emit e self) = message_broker self"
  by (simp add: emit_def)

lemma submitted_jobs_append [simp]:
  "submitted_jobs (xs @ ys) = submitted_jobs xs @ submitted_jobs ys"
  by (induction xs rule: submitted_jobs.induct) simp_all

lemma warnings_append [simp]: "warnings (xs @ ys) = warnings xs @ warnings ys"
  by (induction xs rule: warnings.induct) simp_all

lemma consumed_append [simp]: "consumed (xs @ ys) = consumed xs @ consumed ys"
  by (induction xs rule: consumed.induct) simp_all

lemma store_mutations_append [simp]:
  "store_mutations (xs @ ys) = store_mutations xs @ store_mutations ys"
  by (induction xs rule: store_mutations.induct) simp_all

lemma subscriptions_append [simp]:
  "subscriptions (xs @ ys) = subscriptions xs @ subscriptions ys"
  by (induction xs rule: subscriptions.induct) simp_all

subsection \<open>The time-to-live block\<close>

lemma job_ttl_absent: "job_ttl None = (None, [])" "job_ttl (Some []) = (None, [])"
  by (simp_all add: job_ttl_def)




lemma job_ttl_trace:
  "submitted_jobs (snd (job_ttl t)) = []" "store_mutations (snd (job_ttl t)) = []"
  "subscriptions (snd (job_ttl t)) = []" "consumed (snd (job_ttl t)) = []"
  by (simp_all add: job_ttl_def split: option.splits)

subsection \<open>Submitting\<close>

lemma submit_events:
  "events (snd (submit job self)) =
     events self @ [LoggerDebug job, KubernetesCreateJob job]
       @ (case kubernetes_client self job of
            Some (ApiException st re) \<Rightarrow> [LoggerErrorExc (ApiException st re)]
          | _ \<Rightarrow> [])"
  by (simp add: submit_def Let_def split: option.splits exn.splits)

lemma submit_result:
  "fst (submit job self) = (case kubernetes_client self job of None \<Rightarrow> Inr () | Some e \<Rightarrow> Inl e)"
  by (simp add: submit_def Let_def split: option.splits exn.splits)

lemma submit_jobs: "submitted_jobs (emitted self (snd (submit job self))) = [job]"
  by (simp add: emitted_events_append [OF submit_events] split: option.splits exn.splits)

lemma submit_api_error:
  "kubernetes_client self job = Some (ApiException st re) \<Longrightarrow>
   submit job self =
     (Inl (ApiException st re),
      self\<lparr>events := events self @
         [LoggerDebug job, KubernetesCreateJob job, LoggerErrorExc (ApiException st re)]\<rparr>)"
  by (simp add: submit_def emit_def)

subsection \<open>Building the job\<close>

lemma pod_context_rejected:
  "V1SecurityContext_init
     [(''fs_group_change_policy'', KwStr ''OnRootMismatch''),
      (''run_as_non_root'', KwBool True),
      (''seccomp_profile'', KwSeccompProfile \<lparr>type = Some ''RuntimeDefault''\<rparr>)] =
   Inl (TypeError ''fs_group_change_policy'')"
  by (simp add: V1SecurityContext_init_def V1SecurityContext_keywords_def)

lemma container_context_accepted:
  "V1SecurityContext_init
     [(''run_as_user'', KwInt 1000),
      (''allow_privilege_escalation'', KwBool False),
      (''capabilities'', KwCapabilities \<lparr>drop_capabilities = Some [''ALL'']\<rparr>)] =
   Inr \<lparr>attributes =
         [(''run_as_user'', KwInt 1000),
          (''allow_privilege_escalation'', KwBool False),
          (''capabilities'', KwCapabilities \<lparr>drop_capabilities = Some [''ALL'']\<rparr>)]\<rparr>"
  by (simp add: V1SecurityContext_init_def V1SecurityContext_keywords_def)

lemma filer_job_raises:
  "filer_job cc ttl b task_id job_name commands arguments meta =
     Inl (TypeError ''fs_group_change_policy'')"
  by (simp add: filer_job_def pod_context_rejected)

lemma texam_job_raises:
  "texam_job cc ttl ident task = Inl (TypeError ''fs_group_change_policy'')"
  by (simp add: texam_job_def pod_context_rejected)

lemma create_job_invalid_backoff:
  assumes "py_int (BACKOFF_LIMIT (core_constants_K8s cc)) = None"
  shows "create_job cc task_id job_name commands arguments meta self =
     (Inl (ValueError (BACKOFF_LIMIT (core_constants_K8s cc))),
      self\<lparr>events := events self @ snd (job_ttl (JOB_TTL (core_constants_K8s cc)))\<rparr>)"
  using assms by (simp add: create_job_def Let_def split_beta)

lemma create_job_raises:
  assumes "py_int (BACKOFF_LIMIT (core_constants_K8s cc)) = Some b"
  shows "create_job cc task_id job_name commands arguments meta self =
     (Inl (TypeError ''fs_group_change_policy''),
      self\<lparr>events := events self @ snd (job_ttl (JOB_TTL (core_constants_K8s cc)))\<rparr>)"
  using assms by (simp add: create_job_def Let_def split_beta filer_job_raises)

lemma create_job_events:
  "events (snd (create_job cc task_id job_name commands arguments meta self)) =
     events self @ snd (job_ttl (JOB_TTL (core_constants_K8s cc)))"
  by (cases "py_int (BACKOFF_LIMIT (core_constants_K8s cc))")
    (simp_all add: create_job_invalid_backoff create_job_raises)

lemma create_job_fails:
  "fst (create_job cc task_id job_name commands arguments meta self) =
     (case py_int (BACKOFF_LIMIT (core_constants_K8s cc)) of
        None \<Rightarrow> Inl (ValueError (BACKOFF_LIMIT (core_constants_K8s cc)))
      | Some b \<Rightarrow> Inl (TypeError ''fs_group_change_policy''))"
  by (cases "py_int (BACKOFF_LIMIT (core_constants_K8s cc))")
    (simp_all add: create_job_invalid_backoff create_job_raises)

lemma start_job_no_id:
  "self_id self = None \<Longrightarrow> start_job cc dumps self = (Inl (AttributeError ''id''), self)"
  by (simp add: start_job_def)

lemma start_job_dumps_raises:
  "self_id self = Some ident \<Longrightarrow> dumps (self_task self) = Inl e \<Longrightarrow>
   start_job cc dumps self =
     (Inl e, self\<lparr>events := events self @ snd (job_ttl (JOB_TTL (core_constants_K8s cc)))\<rparr>)"
  by (simp add: start_job_def Let_def split_beta)

lemma start_job_raises:
  "self_id self = Some ident \<Longrightarrow> dumps (self_task self) = Inr task \<Longrightarrow>
   start_job cc dumps self =
     (Inl (TypeError ''fs_group_change_policy''),
      self\<lparr>events := events self @ snd (job_ttl (JOB_TTL (core_constants_K8s cc)))\<rparr>)"
  by (simp add: start_job_def Let_def split_beta texam_job_raises)

lemma start_job_events:
  "events (snd (start_job cc dumps self)) =
     events self @ (case self_id self of
                      None \<Rightarrow> []
                    | Some ident \<Rightarrow> snd (job_ttl (JOB_TTL (core_constants_K8s cc))))"
proof (cases "self_id self")
  case None
  then show ?thesis by (simp add: start_job_no_id)
next
  case (Some ident)
  then show ?thesis
    by (cases "dumps (self_task self)")
      (simp_all add: start_job_dumps_raises start_job_raises)
qed



subsection \<open>The logging step\<close>

lemma log_no_id:
  "self_id self = None \<Longrightarrow>
   log self = (Inl (AttributeError ''The id of the task is not set.''), self)"
  by (simp add: log_def)

lemma log_no_message:
  "self_id self = Some ident \<Longrightarrow> self_message self = None \<Longrightarrow> log self = (Inr (), self)"
  by (simp add: log_def)

lemma log_error:
  "self_id self = Some ident \<Longrightarrow> self_message self = Some msg \<Longrightarrow> status msg = ERROR \<Longrightarrow>
   log self =
     (Inl (RuntimeError ''Exiting due to error condition in asynchronous function.''),
      self\<lparr>events := events self @
         [LoggerError (message msg), DbAddTesTaskSystemLogs ident [message msg],
          DbAddTesTaskLogEndTime ident]\<rparr>)"
  by (simp add: log_def add_tes_task_system_logs_def add_tes_task_log_end_time_def emit_def)

lemma log_ok:
  "self_id self = Some ident \<Longrightarrow> self_message self = Some msg \<Longrightarrow> status msg \<noteq> ERROR \<Longrightarrow>
   log self = (Inr (), self\<lparr>events := events self @ [LoggerInfo (message msg)]\<rparr>)"
  by (simp add: log_def emit_def)

subsection \<open>The wait step\<close>

lemma wait_no_id:
  "self_id self = None \<Longrightarrow>
   wait self = Some (Inl (AttributeError ''The id of the task is not set.''), self)"
  by (simp add: wait_def)

lemma wait_loop_not_silence:
  assumes "wait_loop sub0 self0 = Some self0'"
  shows "sub0 \<noteq> silence"
proof (rule wait_loop.raw_induct [where P = "\<lambda>sub self self'. sub \<noteq> silence", OF _ assms])
  fix f and sub :: "Message option llist" and self self' :: "'a torc_scheme"
  assume IH: "\<And>sub (self :: 'a torc_scheme) self'. f sub self = Some self' \<Longrightarrow> sub \<noteq> silence"
    and step: "(case sub of
        LNil \<Rightarrow> Some self
      | LCons item rest \<Rightarrow>
          (case item of
             None \<Rightarrow> f rest (emit (BrokerYield item) self)
           | Some msg \<Rightarrow>
               Some ((if status msg = ERROR
                      then emit (LoggerError (message msg)) (emit (BrokerYield item) self)
                      else emit (BrokerYield item) self)\<lparr>self_message := Some msg\<rparr>))) = Some self'"
  show "sub \<noteq> silence"
  proof
    assume "sub = silence"
    then have "sub = LCons None silence"
      by (subst (asm) silence.code) simp
    with step have "f silence (emit (BrokerYield None) self) = Some self'"
      by simp
    then show False
      using IH by blast
  qed
qed

lemma wait_loop_silence: "wait_loop silence self = None"
  using wait_loop_not_silence [of silence self] by (cases "wait_loop silence self") auto

lemma wait_blocks_on_silence:
  "self_id self = Some ident \<Longrightarrow> message_broker self ident = silence \<Longrightarrow> wait self = None"
  by (simp add: wait_def wait_loop_silence)

lemma wait_loop_LNil: "wait_loop LNil self = Some self"
  by (simp add: wait_loop.simps)

lemma wait_loop_empty_item:
  "wait_loop (LCons None rest) self = wait_loop rest (emit (BrokerYield None) self)"
  by (subst wait_loop.simps) simp

lemma wait_loop_message:
  "wait_loop (LCons (Some msg) rest) self =
     Some (self\<lparr>events := events self @ BrokerYield (Some msg)
                    # (if status msg = ERROR then [LoggerError (message msg)] else []),
                self_message := Some msg\<rparr>)"
  by (subst wait_loop.simps) (simp add: emit_def)

lemma wait_loop_first_message:
  "wait_loop (lprepend (replicate n None) (LCons (Some msg) rest)) self =
     Some (self\<lparr>events := events self @ replicate n (BrokerYield None)
                    @ BrokerYield (Some msg)
                    # (if status msg = ERROR then [LoggerError (message msg)] else []),
                self_message := Some msg\<rparr>)"
proof (induction n arbitrary: self)
  case 0
  show ?case by (simp add: wait_loop_message)
next
  case (Suc n)
  show ?case
    by (simp add: wait_loop_empty_item Suc.IH emit_def)
qed

lemma wait_loop_exhausted:
  "wait_loop (lprepend (replicate n None) LNil) self =
     Some (self\<lparr>events := events self @ replicate n (BrokerYield None)\<rparr>)"
proof (induction n arbitrary: self)
  case 0
  show ?case by (simp add: wait_loop_LNil)
next
  case (Suc n)
  show ?case
    by (simp add: wait_loop_empty_item Suc.IH emit_def)
qed

lemma wait_loop_returns:
  assumes "wait_loop sub0 self0 = Some self0'"
  shows "\<exists>n. (sub0 = lprepend (replicate n None) LNil
              \<and> self0' = self0\<lparr>events := events self0 @ replicate n (BrokerYield None)\<rparr>)
           \<or> (\<exists>msg rest. sub0 = lprepend (replicate n None) (LCons (Some msg) rest)
              \<and> self0' = self0\<lparr>events := events self0 @ replicate n (BrokerYield None)
                              @ BrokerYield (Some msg)
                              # (if status msg = ERROR then [LoggerError (message msg)] else []),
                            self_message := Some msg\<rparr>)"
    (is "?P sub0 self0 self0'")
proof (rule wait_loop.raw_induct [where P = ?P, OF _ assms])
  fix f and sub :: "Message option llist" and self self' :: "'a torc_scheme"
  assume IH: "\<And>sub (self :: 'a torc_scheme) self'. f sub self = Some self' \<Longrightarrow> ?P sub self self'"
    and step: "(case sub of
        LNil \<Rightarrow> Some self
      | LCons item rest \<Rightarrow>
          (case item of
             None \<Rightarrow> f rest (emit (BrokerYield item) self)
           | Some msg \<Rightarrow>
               Some ((if status msg = ERROR
                      then emit (LoggerError (message msg)) (emit (BrokerYield item) self)
                      else emit (BrokerYield item) self)\<lparr>self_message := Some msg\<rparr>))) = Some self'"
  show "?P sub self self'"
  proof (cases sub)
    case LNil
    with step have "self' = self" by simp
    with LNil have "sub = lprepend (replicate 0 None) LNil
        \<and> self' = self\<lparr>events := events self @ replicate 0 (BrokerYield None)\<rparr>"
      by simp
    then show ?thesis by blast
  next
    case (LCons item rest)
    show ?thesis
    proof (cases item)
      case None
      with LCons step have "f rest (emit (BrokerYield None) self) = Some self'"
        by simp
      from IH [OF this] obtain n where n:
        "(rest = lprepend (replicate n None) LNil
            \<and> self' = (emit (BrokerYield None) self)
                 \<lparr>events := events (emit (BrokerYield None) self) @ replicate n (BrokerYield None)\<rparr>)
         \<or> (\<exists>msg rest'. rest = lprepend (replicate n None) (LCons (Some msg) rest')
            \<and> self' = (emit (BrokerYield None) self)
                 \<lparr>events := events (emit (BrokerYield None) self) @ replicate n (BrokerYield None)
                     @ BrokerYield (Some msg)
                     # (if status msg = ERROR then [LoggerError (message msg)] else []),
                   self_message := Some msg\<rparr>)"
        by blast
      then have "(sub = lprepend (replicate (Suc n) None) LNil
            \<and> self' = self\<lparr>events := events self @ replicate (Suc n) (BrokerYield None)\<rparr>)
         \<or> (\<exists>msg rest'. sub = lprepend (replicate (Suc n) None) (LCons (Some msg) rest')
            \<and> self' = self\<lparr>events := events self @ replicate (Suc n) (BrokerYield None)
                     @ BrokerYield (Some msg)
                     # (if status msg = ERROR then [LoggerError (message msg)] else []),
                   self_message := Some msg\<rparr>)"
        using LCons None by (auto simp: emit_def)
      then show ?thesis by blast
    next
      case (Some msg)
      with LCons step have "sub = lprepend (replicate 0 None) (LCons (Some msg) rest)
        \<and> self' = self\<lparr>events := events self @ replicate 0 (BrokerYield None)
                     @ BrokerYield (Some msg)
                     # (if status msg = ERROR then [LoggerError (message msg)] else []),
                   self_message := Some msg\<rparr>"
        by (auto simp: emit_def)
      then show ?thesis by blast
    qed
  qed
qed

lemma consumed_empty_items [simp]: "consumed (replicate n (BrokerYield None)) = []"
  by (induction n) simp_all

lemma store_mutations_empty_items [simp]: "store_mutations (replicate n (BrokerYield None)) = []"
  by (induction n) simp_all

lemma wait_loop_trace:
  assumes "wait_loop sub self = Some self'"
  shows "store_mutations (emitted self self') = []"
    and "consumed (emitted self self') = [] \<and> self_message self' = self_message self
         \<or> (\<exists>msg. consumed (emitted self self') = [msg] \<and> self_message self' = Some msg)"
  using wait_loop_returns [OF assms] by (auto simp: emitted_def)

lemma wait_trace:
  assumes "wait self = Some (r, self')"
  shows "store_mutations (emitted self self') = []"
    and "consumed (emitted self self') = [] \<and> self_message self' = self_message self
         \<or> (\<exists>msg. consumed (emitted self self') = [msg] \<and> self_message self' = Some msg)"
proof -
  show "store_mutations (emitted self self') = []"
  proof (cases "self_id self")
    case None
    with assms show ?thesis by (simp add: wait_def)
  next
    case (Some ident)
    with assms have "wait_loop (message_broker self ident) (emit (BrokerSubscribe ident) self) = Some self'"
      by (auto simp: wait_def)
    from wait_loop_returns [OF this] show ?thesis
      by (auto simp: emitted_def)
  qed
  show "consumed (emitted self self') = [] \<and> self_message self' = self_message self
         \<or> (\<exists>msg. consumed (emitted self self') = [msg] \<and> self_message self' = Some msg)"
  proof (cases "self_id self")
    case None
    with assms show ?thesis by (simp add: wait_def)
  next
    case (Some ident)
    with assms have "wait_loop (message_broker self ident) (emit (BrokerSubscribe ident) self) = Some self'"
      by (auto simp: wait_def)
    from wait_loop_returns [OF this] show ?thesis
      by (auto simp: emitted_def)
  qed
qed

lemma wait_keeps_id:
  assumes "wait self = Some (r, self')"
  shows "self_id self' = self_id self"
proof (cases "self_id self")
  case None
  with assms show ?thesis by (simp add: wait_def)
next
  case (Some ident)
  with assms
  have "wait_loop (message_broker self ident) (emit (BrokerSubscribe ident) self) = Some self'"
    by (auto simp: wait_def)
  from wait_loop_returns [OF this] show ?thesis
    by (auto simp: emit_def)
qed

lemma wait_received_has_id:
  assumes "wait self = Some (r, self')" and "self_message self = None"
    and "self_message self' = Some msg"
  shows "\<exists>ident. self_id self' = Some ident"
proof (cases "self_id self")
  case None
  with assms show ?thesis by (auto simp: wait_def)
next
  case (Some ident)
  with wait_keeps_id [OF assms(1)] show ?thesis by simp
qed

lemma wait_first_message:
  assumes "self_id self = Some ident"
    and "message_broker self ident = lprepend (replicate n None) (LCons (Some msg) rest)"
  shows "wait self =
     Some (Inr (),
           self\<lparr>events := events self @ BrokerSubscribe ident # replicate n (BrokerYield None)
                      @ BrokerYield (Some msg)
                      # (if status msg = ERROR then [LoggerError (message msg)] else []),
                 self_message := Some msg\<rparr>)"
  using assms by (simp add: wait_def wait_loop_first_message emit_def)

subsection \<open>Store writes\<close>

lemma create_job_store:
  "store_mutations (emitted self (snd (create_job cc task_id job_name commands arguments meta self))) = []"
  by (simp add: emitted_def create_job_events job_ttl_trace)

lemma start_job_store:
  "store_mutations (emitted self (snd (start_job cc dumps self))) = []"
  by (simp add: emitted_def start_job_events job_ttl_trace split: option.splits)

lemma start_job_quiet:
  "subscriptions (emitted self (snd (start_job cc dumps self))) = []"
  "consumed (emitted self (snd (start_job cc dumps self))) = []"
  by (simp_all add: emitted_def start_job_events job_ttl_trace split: option.splits)

lemma log_store:
  "store_mutations (emitted self (snd (log self))) =
     (case (self_id self, self_message self) of
        (Some ident, Some msg) \<Rightarrow>
          if status msg = ERROR
          then [DbAddTesTaskSystemLogs ident [message msg], DbAddTesTaskLogEndTime ident]
          else []
      | _ \<Rightarrow> [])"
  by (simp add: log_def emitted_def add_tes_task_system_logs_def add_tes_task_log_end_time_def
      split: option.splits)

subsection \<open>The time-to-live in a trace\<close>

lemma job_ttl_warnings:
  "warnings (snd (job_ttl t)) =
     (case t of
        None \<Rightarrow> []
      | Some s \<Rightarrow>
          if s \<noteq> [] \<and> py_int s = None
          then [''Invalid JOB_TTL '' @ s @ '', falling back to no TTL (None).'']
          else [])"
  by (simp add: job_ttl_def split: option.splits)



subsection \<open>The example deployment\<close>

lemma example_backoff:
  "py_int (BACKOFF_LIMIT (core_constants_K8s (example_constants ttl))) = Some 3"
proof -
  have "py_int ''3'' = Some 3" by code_simp
  then show ?thesis by (simp add: example_constants_def example_K8s_def)
qed

lemma example_ttl: "JOB_TTL (core_constants_K8s (example_constants ttl)) = ttl"
  by (simp add: example_constants_def)

lemma example_texam_fields:
  "self_id (example_texam k8s sub) = Some ''t1''"
  "example_dumps t = Inr ''{}''"
  "events (example_texam k8s sub) = []"
  "kubernetes_client (example_texam k8s sub) = k8s"
  by (simp_all add: example_texam_def TorcTexamExecution_init_def example_dumps_def)

lemma example_torc_fields:
  "self_id (example_torc k8s sub) = Some ''t1''"
  "self_message (example_torc k8s sub) = None"
  "events (example_torc k8s sub) = []"
  "kubernetes_client (example_torc k8s sub) = k8s"
  by (simp_all add: example_torc_def TorcExecutionTemplate_init_def)

subsection \<open>The logging step on an error message\<close>

text \<open>
  C2. With the identity set and a received message of status \<open>ERROR\<close> and text \<open>m\<close>,
  the logging step appends \<open>m\<close> as a system log entry for the task, then sets the
  task's end time, then raises the fatal \<^verbatim>\<open>RuntimeError\<close>: the trace grows by the error
  log line and the two store writes in this order, and the exception leaves with both
  writes done.
\<close>

theorem log_error_order:
  assumes "self_id self = Some ident" and "self_message self = Some msg"
    and "status msg = ERROR"
  shows "log self =
     (Inl (RuntimeError ''Exiting due to error condition in asynchronous function.''),
      self\<lparr>events := events self @
         [LoggerError (message msg), DbAddTesTaskSystemLogs ident [message msg],
          DbAddTesTaskLogEndTime ident]\<rparr>)
   \<and> store_mutations (emitted self (snd (log self))) =
       [DbAddTesTaskSystemLogs ident [message msg], DbAddTesTaskLogEndTime ident]"
  using assms by (simp add: log_error emitted_def)

theorem log_error_order_witness:
  "fst (log ((example_torc accepting LNil)\<lparr>self_message := Some disk_full\<rparr>)) =
     Inl (RuntimeError ''Exiting due to error condition in asynchronous function.'')
   \<and> events (snd (log ((example_torc accepting LNil)\<lparr>self_message := Some disk_full\<rparr>))) =
       [LoggerError ''disk full'', DbAddTesTaskSystemLogs ''t1'' [''disk full''],
        DbAddTesTaskLogEndTime ''t1'']
   \<and> store_mutations
        (emitted ((example_torc accepting LNil)\<lparr>self_message := Some disk_full\<rparr>)
           (snd (log ((example_torc accepting LNil)\<lparr>self_message := Some disk_full\<rparr>)))) =
       [DbAddTesTaskSystemLogs ''t1'' [''disk full''], DbAddTesTaskLogEndTime ''t1'']"
  using log_error_order
    [of "(example_torc accepting LNil)\<lparr>self_message := Some disk_full\<rparr>" "''t1''" disk_full]
  by (simp add: example_torc_def TorcExecutionTemplate_init_def disk_full_def emitted_def)

subsection \<open>An unset identity\<close>

text \<open>
  C8. On an object without the identity attribute both the wait step and the logging step
  raise \<^verbatim>\<open>AttributeError\<close> at once: the state is returned as it was (no subscription,
  no item taken, no store write), and the wait step returns whatever the channel would
  have delivered, also on a channel on which nothing ever arrives.
\<close>

theorem unset_identity_fails_immediately:
  assumes "self_id self = None"
  shows "wait self = Some (Inl (AttributeError ''The id of the task is not set.''), self)
       \<and> log self = (Inl (AttributeError ''The id of the task is not set.''), self)"
  using assms by (simp add: wait_no_id log_no_id)

theorem unset_identity_fails_immediately_witness:
  "self_id (TorcExecutionTemplate_init accepting (\<lambda>ch. silence)) = None
   \<and> wait (TorcExecutionTemplate_init accepting (\<lambda>ch. silence)) =
       Some (Inl (AttributeError ''The id of the task is not set.''),
             TorcExecutionTemplate_init accepting (\<lambda>ch. silence))
   \<and> log (TorcExecutionTemplate_init accepting (\<lambda>ch. silence)) =
       (Inl (AttributeError ''The id of the task is not set.''),
        TorcExecutionTemplate_init accepting (\<lambda>ch. silence))
   \<and> events (TorcExecutionTemplate_init accepting (\<lambda>ch. silence)) = []"
proof -
  have "self_id (TorcExecutionTemplate_init accepting (\<lambda>ch. silence)) = None"
    by (simp add: TorcExecutionTemplate_init_def)
  then show ?thesis
    using unset_identity_fails_immediately [of "TorcExecutionTemplate_init accepting (\<lambda>ch. silence)"]
    by (simp add: TorcExecutionTemplate_init_def)
qed

subsection \<open>The wait step\<close>

text \<open>
  C5. The wait step takes at most one message from the subscription. When the channel
  named by the identity yields \<open>n\<close> empty items and then the message \<open>msg\<close>, the step
  subscribes to that channel, takes those \<open>n + 1\<close> items and nothing of what follows,
  records \<open>msg\<close> as the object's message and returns; a message of status \<open>ERROR\<close> is
  logged at once, so that the logging step, which comes next, logs the same text a
  second time. Whenever the step returns, it has taken no message and left the object's
  message as it was, or it has taken exactly one and recorded it.
\<close>

theorem wait_takes_first_message:
  "(self_id self = Some ident
      \<and> message_broker self ident = lprepend (replicate n None) (LCons (Some msg) rest)
    \<longrightarrow> wait self =
          Some (Inr (),
                self\<lparr>events := events self @ BrokerSubscribe ident
                           # replicate n (BrokerYield None)
                           @ BrokerYield (Some msg)
                           # (if status msg = ERROR then [LoggerError (message msg)] else []),
                      self_message := Some msg\<rparr>))
   \<and> (self_id self = Some ident
      \<and> message_broker self ident = lprepend (replicate n None) (LCons (Some msg) rest)
      \<and> status msg = ERROR
    \<longrightarrow> (\<exists>self'. wait self = Some (Inr (), self')
          \<and> emitted self (snd (log self')) =
              BrokerSubscribe ident # replicate n (BrokerYield None)
              @ [BrokerYield (Some msg), LoggerError (message msg),
                 LoggerError (message msg), DbAddTesTaskSystemLogs ident [message msg],
                 DbAddTesTaskLogEndTime ident]))
   \<and> (wait self = Some (r, self')
    \<longrightarrow> (consumed (emitted self self') = [] \<and> self_message self' = self_message self)
        \<or> (\<exists>m. consumed (emitted self self') = [m] \<and> self_message self' = Some m))"
proof (intro conjI impI)
  assume "self_id self = Some ident
      \<and> message_broker self ident = lprepend (replicate n None) (LCons (Some msg) rest)"
  then show "wait self =
          Some (Inr (),
                self\<lparr>events := events self @ BrokerSubscribe ident
                           # replicate n (BrokerYield None)
                           @ BrokerYield (Some msg)
                           # (if status msg = ERROR then [LoggerError (message msg)] else []),
                      self_message := Some msg\<rparr>)"
    by (simp add: wait_first_message)
next
  assume a: "self_id self = Some ident
      \<and> message_broker self ident = lprepend (replicate n None) (LCons (Some msg) rest)
      \<and> status msg = ERROR"
  let ?s = "self\<lparr>events := events self @ BrokerSubscribe ident
                           # replicate n (BrokerYield None)
                           @ [BrokerYield (Some msg), LoggerError (message msg)],
                      self_message := Some msg\<rparr>"
  from a have "wait self = Some (Inr (), ?s)"
    by (simp add: wait_first_message)
  moreover from a have "log ?s =
     (Inl (RuntimeError ''Exiting due to error condition in asynchronous function.''),
      ?s\<lparr>events := events ?s @
         [LoggerError (message msg), DbAddTesTaskSystemLogs ident [message msg],
          DbAddTesTaskLogEndTime ident]\<rparr>)"
    by (intro log_error) simp_all
  then have "emitted self (snd (log ?s)) =
              BrokerSubscribe ident # replicate n (BrokerYield None)
              @ [BrokerYield (Some msg), LoggerError (message msg),
                 LoggerError (message msg), DbAddTesTaskSystemLogs ident [message msg],
                 DbAddTesTaskLogEndTime ident]"
    by (simp add: emitted_def)
  ultimately show "\<exists>self'. wait self = Some (Inr (), self')
          \<and> emitted self (snd (log self')) =
              BrokerSubscribe ident # replicate n (BrokerYield None)
              @ [BrokerYield (Some msg), LoggerError (message msg),
                 LoggerError (message msg), DbAddTesTaskSystemLogs ident [message msg],
                 DbAddTesTaskLogEndTime ident]"
    by blast
next
  assume "wait self = Some (r, self')"
  then show "(consumed (emitted self self') = [] \<and> self_message self' = self_message self)
        \<or> (\<exists>m. consumed (emitted self self') = [m] \<and> self_message self' = Some m)"
    by (rule wait_trace)
qed

theorem wait_takes_first_message_witness:
  "wait (example_torc accepting (LCons None (LCons (Some disk_full) (LCons (Some done_ok) silence)))) =
     Some (Inr (),
           (example_torc accepting (LCons None (LCons (Some disk_full) (LCons (Some done_ok) silence))))
             \<lparr>events := [BrokerSubscribe ''t1'', BrokerYield None, BrokerYield (Some disk_full),
                         LoggerError ''disk full''],
               self_message := Some disk_full\<rparr>)
   \<and> consumed [BrokerSubscribe ''t1'', BrokerYield None, BrokerYield (Some disk_full),
                LoggerError ''disk full''] = [disk_full]"
proof -
  let ?s = "example_torc accepting (LCons None (LCons (Some disk_full) (LCons (Some done_ok) silence)))"
  have "self_id ?s = Some ''t1''
      \<and> message_broker ?s ''t1'' =
          lprepend (replicate 1 None) (LCons (Some disk_full) (LCons (Some done_ok) silence))"
    by (simp add: example_torc_def TorcExecutionTemplate_init_def)
  then show ?thesis
    using wait_takes_first_message
      [of ?s "''t1''" 1 disk_full "LCons (Some done_ok) silence" "Inr ()" ?s]
    by (simp add: example_torc_def TorcExecutionTemplate_init_def disk_full_def)
qed

subsection \<open>The logging step on a success message\<close>

text \<open>
  C6. With a received message of status \<open>OK\<close> the logging step writes nothing to the
  task store and raises nothing: it logs the text at level info and returns. This holds
  for an object with the identity set, and so for every message that the wait step has
  received. The store is written only on the error path: a store write by the logging step
  implies a message of status \<open>ERROR\<close>, and neither the wait step nor the two submitting
  operations write to it.
\<close>

theorem log_ok_no_store_mutation:
  "(self_id self = Some ident \<and> self_message self = Some msg \<and> status msg = OK
    \<longrightarrow> log self = (Inr (), self\<lparr>events := events self @ [LoggerInfo (message msg)]\<rparr>)
        \<and> store_mutations (emitted self (snd (log self))) = [])
   \<and> (self_message self = None \<and> wait self = Some (r, self')
      \<and> self_message self' = Some msg \<and> status msg = OK
    \<longrightarrow> log self' = (Inr (), self'\<lparr>events := events self' @ [LoggerInfo (message msg)]\<rparr>)
        \<and> store_mutations (emitted self (snd (log self'))) = [])
   \<and> (store_mutations (emitted self (snd (log self))) \<noteq> []
    \<longrightarrow> (\<exists>m. self_message self = Some m \<and> status m = ERROR))
   \<and> (wait self = Some (r, self') \<longrightarrow> store_mutations (emitted self self') = [])
   \<and> store_mutations
        (emitted self (snd (create_job cc task_id job_name commands arguments meta self))) = []
   \<and> store_mutations (emitted self'' (snd (start_job cc dumps self''))) = []"
proof (intro conjI impI)
  assume a: "self_id self = Some ident \<and> self_message self = Some msg \<and> status msg = OK"
  then show "log self = (Inr (), self\<lparr>events := events self @ [LoggerInfo (message msg)]\<rparr>)"
    by (simp add: log_ok)
  from a show "store_mutations (emitted self (snd (log self))) = []"
    by (simp add: log_store)
next
  assume a: "self_message self = None \<and> wait self = Some (r, self')
      \<and> self_message self' = Some msg \<and> status msg = OK"
  then obtain ident where i: "self_id self' = Some ident"
    using wait_received_has_id by blast
  with a show l: "log self' = (Inr (), self'\<lparr>events := events self' @ [LoggerInfo (message msg)]\<rparr>)"
    by (simp add: log_ok)
  from a have "store_mutations (emitted self self') = []"
    by (simp add: wait_trace(1))
  moreover from a have "length (events self) \<le> length (events self')"
    by (auto simp: wait_def emit_def split: option.splits dest!: wait_loop_returns)
  ultimately show "store_mutations (emitted self (snd (log self'))) = []"
    by (simp add: l emitted_def)
next
  assume "store_mutations (emitted self (snd (log self))) \<noteq> []"
  then show "\<exists>m. self_message self = Some m \<and> status m = ERROR"
    by (auto simp: log_store split: option.splits if_splits)
next
  assume "wait self = Some (r, self')"
  then show "store_mutations (emitted self self') = []"
    by (rule wait_trace)
next
  show "store_mutations
        (emitted self (snd (create_job cc task_id job_name commands arguments meta self))) = []"
    by (rule create_job_store)
  show "store_mutations (emitted self'' (snd (start_job cc dumps self''))) = []"
    by (rule start_job_store)
qed

theorem log_ok_no_store_mutation_witness:
  "log ((example_torc accepting LNil)\<lparr>self_message := Some done_ok\<rparr>) =
     (Inr (), (example_torc accepting LNil)
                \<lparr>self_message := Some done_ok, events := [LoggerInfo ''done'']\<rparr>)
   \<and> store_mutations [LoggerInfo ''done''] = []"
  using log_ok_no_store_mutation
    [of "(example_torc accepting LNil)\<lparr>self_message := Some done_ok\<rparr>" "''t1''" done_ok,
     THEN conjunct1]
  by (simp add: example_torc_def TorcExecutionTemplate_init_def done_ok_def)

subsection \<open>The template\<close>

text \<open>
  C3. \<^verbatim>\<open>execute\<close> runs the hook, then the wait step, then the logging step, and an
  exception ends it: if the hook raises, the invocation ends with that exception in the
  state the hook left (no wait, no logging); if the wait step raises, the logging step does
  not run; otherwise the outcome is the logging step's. While the wait step blocks, the
  invocation does not return. For the task-execution variant in particular: when its
  \<^verbatim>\<open>start_job\<close> raises, the whole invocation has subscribed to nothing, taken no
  message and written nothing to the task store.
\<close>

theorem execute_sequential:
  "(start_job_hook self = (Inl e, self1)
    \<longrightarrow> execute start_job_hook self = Some (Inl e, self1))
   \<and> (start_job_hook self = (Inr (), self1) \<and> wait self1 = Some (Inl e, self2)
    \<longrightarrow> execute start_job_hook self = Some (Inl e, self2))
   \<and> (start_job_hook self = (Inr (), self1) \<and> wait self1 = Some (Inr (), self2)
    \<longrightarrow> execute start_job_hook self = Some (log self2))
   \<and> (start_job_hook self = (Inr (), self1) \<and> wait self1 = None
    \<longrightarrow> execute start_job_hook self = None)
   \<and> (fst (start_job cc dumps texam) = Inl e
    \<longrightarrow> (\<exists>texam'. execute (start_job cc dumps) texam = Some (Inl e, texam')
          \<and> subscriptions (emitted texam texam') = []
          \<and> consumed (emitted texam texam') = []
          \<and> store_mutations (emitted texam texam') = []))"
proof (intro conjI impI)
  assume "fst (start_job cc dumps texam) = Inl e"
  then obtain texam' where hook: "start_job cc dumps texam = (Inl e, texam')"
    by (cases "start_job cc dumps texam") simp
  then have "execute (start_job cc dumps) texam = Some (Inl e, texam')"
    by (simp add: execute_def)
  moreover from hook have "texam' = snd (start_job cc dumps texam)"
    by simp
  ultimately show "\<exists>texam'. execute (start_job cc dumps) texam = Some (Inl e, texam')
          \<and> subscriptions (emitted texam texam') = []
          \<and> consumed (emitted texam texam') = []
          \<and> store_mutations (emitted texam texam') = []"
    by (simp add: start_job_quiet start_job_store)
qed (simp_all add: execute_def)

theorem execute_sequential_witness:
  "(\<exists>texam'. execute (start_job (example_constants None) example_dumps)
                  (example_texam rejecting silence) =
                Some (Inl (TypeError ''fs_group_change_policy''), texam')
            \<and> subscriptions (emitted (example_texam rejecting silence) texam') = []
            \<and> consumed (emitted (example_texam rejecting silence) texam') = []
            \<and> store_mutations (emitted (example_texam rejecting silence) texam') = [])
   \<and> execute idle_hook (TorcExecutionTemplate_init accepting (\<lambda>ch. silence)) =
       Some (Inl (AttributeError ''The id of the task is not set.''),
             TorcExecutionTemplate_init accepting (\<lambda>ch. silence))
   \<and> execute idle_hook (example_torc accepting silence) = None"
proof -
  let ?hook = "start_job (example_constants None) example_dumps"
  let ?s = "example_texam rejecting silence"
  have "fst (?hook ?s) = Inl (TypeError ''fs_group_change_policy'')"
    by (simp add: start_job_raises [where ident = "''t1''" and task = "''{}''"]
        example_texam_fields)
  with execute_sequential
    [where cc = "example_constants None" and dumps = example_dumps and texam = ?s
       and e = "TypeError ''fs_group_change_policy''",
     THEN conjunct2, THEN conjunct2, THEN conjunct2, THEN conjunct2]
  have 1: "\<exists>texam'. execute ?hook ?s = Some (Inl (TypeError ''fs_group_change_policy''), texam')
            \<and> subscriptions (emitted ?s texam') = []
            \<and> consumed (emitted ?s texam') = []
            \<and> store_mutations (emitted ?s texam') = []"
    by simp
  let ?t = "TorcExecutionTemplate_init accepting (\<lambda>ch. silence)"
  have "idle_hook ?t = (Inr (), ?t)"
    by (simp add: idle_hook_def)
  moreover have "self_id ?t = None"
    by (simp add: TorcExecutionTemplate_init_def)
  then have "wait ?t = Some (Inl (AttributeError ''The id of the task is not set.''), ?t)"
    by (rule wait_no_id)
  ultimately have 2: "execute idle_hook ?t =
      Some (Inl (AttributeError ''The id of the task is not set.''), ?t)"
    using execute_sequential
      [of idle_hook ?t "AttributeError ''The id of the task is not set.''" ?t ?t,
       THEN conjunct2, THEN conjunct1]
    by simp
  let ?a = "example_torc accepting silence"
  have "self_id ?a = Some ''t1''" and "message_broker ?a ''t1'' = silence"
    by (simp_all add: example_torc_def TorcExecutionTemplate_init_def)
  then have "wait ?a = None"
    by (rule wait_blocks_on_silence)
  moreover have "idle_hook ?a = (Inr (), ?a)"
    by (simp add: idle_hook_def)
  ultimately have 3: "execute idle_hook ?a = None"
    using execute_sequential
      [of idle_hook ?a _ ?a, THEN conjunct2, THEN conjunct2, THEN conjunct2, THEN conjunct1]
    by simp
  from 1 2 3 show ?thesis by simp
qed

subsection \<open>The security posture of every submitted job\<close>

text \<open>
  C1. Every job that \<^verbatim>\<open>create_job\<close> or the task-execution \<^verbatim>\<open>start_job\<close> builds and
  submits is to carry the hardened posture, at pod level the fs-group change policy
  \<open>OnRootMismatch\<close>, run-as-non-root and the seccomp profile \<open>RuntimeDefault\<close>. Neither
  operation builds a job: both create the pod-level context with
  \<^verbatim>\<open>V1SecurityContext(fs_group_change_policy=...)\<close>, a keyword that class does not have, so
  the call raises \<^verbatim>\<open>TypeError\<close>, the operation ends with it, and nothing is logged or
  handed to the scheduler.
\<close>

theorem pod_security_context_raises:
  "V1SecurityContext_init
     [(''fs_group_change_policy'', KwStr ''OnRootMismatch''),
      (''run_as_non_root'', KwBool True),
      (''seccomp_profile'', KwSeccompProfile \<lparr>type = Some ''RuntimeDefault''\<rparr>)] =
     Inl (TypeError ''fs_group_change_policy'')
   \<and> create_job (example_constants None) ''t1'' ''tif-t1'' [''poiesis'', ''tif'']
       [''--name'', ''t1''] example_meta (example_torc accepting LNil) =
       (Inl (TypeError ''fs_group_change_policy''), example_torc accepting LNil)
   \<and> start_job (example_constants None) example_dumps (example_texam accepting LNil) =
       (Inl (TypeError ''fs_group_change_policy''), example_texam accepting LNil)
   \<and> submitted_jobs (events (example_torc accepting LNil)) = []
   \<and> submitted_jobs (events (example_texam accepting LNil)) = []"
  by (simp add: pod_context_rejected create_job_raises [OF example_backoff]
      start_job_raises [where ident = "''t1''" and task = "''{}''"]
      example_texam_fields example_torc_fields example_ttl job_ttl_absent)

subsection \<open>A scheduler error on submission\<close>


subsection \<open>Restart policy and backoff limit\<close>


subsection \<open>Names in the task-execution job\<close>


subsection \<open>The time-to-live\<close>




end
